theory Spec2Isabelle
  imports Main
begin

section \<open>Constants\<close>

text \<open>
  Modelled from the spec: the string constants of \<^verbatim>\<open>namex.models.State\<close>,
  \<^verbatim>\<open>namex.models.Name\<close>, \<^verbatim>\<open>namex.constants.PaymentState\<close>,
  \<^verbatim>\<open>Payment.PaymentActions\<close> and \<^verbatim>\<open>namex.constants.NameRequestPatchActions\<close>.
  Their declarations are not part of the sources; the resources only use them by name.
  Each constant has its own name as value, as the literals \<^verbatim>\<open>'DRAFT'\<close> in
  \<^verbatim>\<open>payment_societies.py\<close> and \<^verbatim>\<open>name_request.py\<close> show for \<^verbatim>\<open>State.DRAFT\<close>.
\<close>

definition DRAFT :: string where "DRAFT = ''DRAFT''"
definition COND_RESERVE :: string where "COND_RESERVE = ''COND_RESERVE''"
definition RESERVED :: string where "RESERVED = ''RESERVED''"
definition PENDING_PAYMENT :: string where "PENDING_PAYMENT = ''PENDING_PAYMENT''"
definition INPROGRESS :: string where "INPROGRESS = ''INPROGRESS''"
definition HOLD :: string where "HOLD = ''HOLD''"
definition APPROVED :: string where "APPROVED = ''APPROVED''"
definition CONDITIONAL :: string where "CONDITIONAL = ''CONDITIONAL''"
definition REJECTED :: string where "REJECTED = ''REJECTED''"
definition CONSUMED :: string where "CONSUMED = ''CONSUMED''"
definition EXPIRED :: string where "EXPIRED = ''EXPIRED''"
definition CANCELLED :: string where "CANCELLED = ''CANCELLED''"
definition REFUND_REQUESTED :: string where "REFUND_REQUESTED = ''REFUND_REQUESTED''"

lemmas State_defs = DRAFT_def COND_RESERVE_def RESERVED_def PENDING_PAYMENT_def
  INPROGRESS_def HOLD_def APPROVED_def CONDITIONAL_def REJECTED_def CONSUMED_def
  EXPIRED_def CANCELLED_def REFUND_REQUESTED_def

definition VALID_STATES :: "string list" where
  "VALID_STATES = [DRAFT, COND_RESERVE, RESERVED, PENDING_PAYMENT, INPROGRESS, HOLD,
     APPROVED, CONDITIONAL, REJECTED, CONSUMED, EXPIRED, CANCELLED, REFUND_REQUESTED]"

definition COMPLETED_STATE :: "string list" where
  "COMPLETED_STATE = [APPROVED, REJECTED, CONDITIONAL, CONSUMED, EXPIRED]"

definition Name_APPROVED :: string where "Name_APPROVED = ''APPROVED''"
definition Name_CONDITION :: string where "Name_CONDITION = ''CONDITION''"

definition PaymentState_APPROVED :: string where "PaymentState_APPROVED = ''APPROVED''"
definition PaymentState_COMPLETED :: string where "PaymentState_COMPLETED = ''COMPLETED''"
definition PaymentState_PARTIAL :: string where "PaymentState_PARTIAL = ''PARTIAL''"
definition PaymentState_REFUND_REQUESTED :: string where
  "PaymentState_REFUND_REQUESTED = ''REFUND_REQUESTED''"

definition REAPPLY :: string where "REAPPLY = ''REAPPLY''"

lemmas Payment_defs = PaymentState_APPROVED_def PaymentState_COMPLETED_def
  PaymentState_PARTIAL_def PaymentState_REFUND_REQUESTED_def REAPPLY_def

definition CHECKOUT :: string where "CHECKOUT = ''CHECKOUT''"
definition CHECKIN :: string where "CHECKIN = ''CHECKIN''"
definition EDIT :: string where "EDIT = ''EDIT''"
definition CANCEL :: string where "CANCEL = ''CANCEL''"
definition RESEND :: string where "RESEND = ''RESEND''"
definition REQUEST_REFUND :: string where "REQUEST_REFUND = ''REQUEST_REFUND''"

lemmas Action_defs = CHECKOUT_def CHECKIN_def EDIT_def CANCEL_def RESEND_def
  REQUEST_REFUND_def

text \<open>The members of the enumeration \<^verbatim>\<open>NameRequestPatchActions\<close>, in declaration order.\<close>

definition NameRequestPatchActions :: "string list" where
  "NameRequestPatchActions = [CHECKOUT, CHECKIN, EDIT, CANCEL, RESEND, REQUEST_REFUND]"

definition has_value :: "string \<Rightarrow> bool" where
  "has_value v = (v \<in> set NameRequestPatchActions)"

text \<open>\<^verbatim>\<open>Event.PUT\<close>, \<^verbatim>\<open>Event.PATCH\<close>: the verbs of the audit trail.\<close>

definition Event_PUT :: string where "Event_PUT = ''PUT''"
definition Event_PATCH :: string where "Event_PATCH = ''PATCH''"

section \<open>Data model\<close>

text \<open>A payment row: \<^verbatim>\<open>namex.models.Payment\<close>, the columns the resources read or write.\<close>

record payment =
  payment_token :: string
  payment_status_code :: string
  payment_action :: string

text \<open>A name choice: \<^verbatim>\<open>namex.models.Name\<close>.\<close>

record name_choice =
  choice :: nat
  name_text :: string
  name_state :: string
  consumptionDate :: "nat option"
  name_corpNum :: "string option"

text \<open>
  A name request row: \<^verbatim>\<open>namex.models.Request\<close>. Python's \<^verbatim>\<open>None\<close> is \<open>None\<close>;
  dates are points in time (\<open>nat\<close>).
\<close>

record request =
  nr_id :: nat
  nrNum :: string
  stateCd :: string
  previousStateCd :: "string option"
  userId :: nat
  furnished :: string
  expirationDate :: "nat option"
  hasBeenReset :: "bool option"
  consentFlag :: "string option"
  request_action_cd :: "string option"
  requestTypeCd :: "string option"
  entity_type_cd :: "string option"
  checkedOutBy :: "string option"
  checkedOutDt :: "nat option"
  names :: "name_choice list"
  payments :: "payment list"

text \<open>A row of \<^verbatim>\<open>namex.models.PaymentSociety\<close>, as \<^verbatim>\<open>PaymentSocieties.post\<close> fills it.\<close>

record payment_society =
  ps_nrNum :: string
  ps_corpNum :: "string option"
  ps_paymentCompletionDate :: "nat option"
  ps_paymentStatusCode :: "string option"
  ps_paymentFeeCode :: "string option"
  ps_paymentType :: "string option"
  ps_paymentAmount :: "int option"
  ps_paymentJson :: "string option"
  ps_paymentAction :: "string option"

text \<open>An audit event: the verb (with its sub-action) and the request it is about.\<close>

datatype event = Event string nat

text \<open>A call of the payment gateway.\<close>

datatype gateway_call = GetPayment string | RefundPayment string

text \<open>
  The persisted tables and the outgoing calls to the external collaborators: the
  notifications published (\<^verbatim>\<open>publish_email_notification(nr_num, option, refund_value)\<close>),
  the calls made to the payment gateway and the documents deleted from the search index.
\<close>

record world =
  requests :: "request list"
  payment_societies :: "payment_society list"
  events :: "event list"
  notifications :: "(string \<times> string \<times> string option) list"
  gateway_calls :: "gateway_call list"
  solr_deletes :: "(string \<times> string) list"

text \<open>\<^verbatim>\<open>Request.query.get(nr_id)\<close>: the row with that id, or \<^verbatim>\<open>None\<close>.\<close>

definition query_get :: "nat \<Rightarrow> world \<Rightarrow> request option" where
  "query_get i w = find (\<lambda>r. nr_id r = i) (requests w)"

text \<open>\<^verbatim>\<open>RequestDAO.find_by_nr(nr)\<close>: the row with that NR number, or \<^verbatim>\<open>None\<close>.\<close>

definition find_by_nr :: "string \<Rightarrow> world \<Rightarrow> request option" where
  "find_by_nr n w = find (\<lambda>r. nrNum r = n) (requests w)"

text \<open>\<^verbatim>\<open>save_to_db\<close> of a request: the row with the same id is replaced.\<close>

definition save_to_db :: "request \<Rightarrow> world \<Rightarrow> world" where
  "save_to_db r w = w\<lparr>requests := map (\<lambda>x. if nr_id x = nr_id r then r else x) (requests w)\<rparr>"

text \<open>\<^verbatim>\<open>EventRecorder.record\<close> appends to the audit trail.\<close>

definition record_event :: "string \<Rightarrow> request \<Rightarrow> world \<Rightarrow> world" where
  "record_event verb r w = w\<lparr>events := events w @ [Event verb (nr_id r)]\<rparr>"

definition publish_email_notification :: "string \<Rightarrow> string \<Rightarrow> string option \<Rightarrow> world \<Rightarrow> world" where
  "publish_email_notification nr_num option refund_value w =
     w\<lparr>notifications := notifications w @ [(nr_num, option, refund_value)]\<rparr>"

text \<open>The exceptions the resources raise or let through.\<close>

datatype exn =
    NameRequestIsInProgressError
  | InvalidInputError string
  | AttributeError
  | TypeError
  | KeyError
  | PaymentServiceError

text \<open>
  A response: the request as JSON with a 200, a message with a status code, or what
  \<^verbatim>\<open>handle_exception(err, message, code)\<close> builds from an exception.
\<close>

datatype response =
    Ok200 request
  | Ok200_payment_society payment_society
  | Message nat string
  | Failure nat exn

section \<open>The collaborators of the name request resources\<close>

text \<open>What the payment gateway answers to \<^verbatim>\<open>get_payment\<close>: the total and the receipt amounts.
  Amounts are exact, in cents; Python's floats are not modelled.\<close>

record payment_response =
  total :: int
  receipts :: "int list"

text \<open>
  The request body as the name request resources read it. A key is absent (\<open>None\<close>),
  present with the value \<^verbatim>\<open>None\<close> (\<open>Some None\<close>) or present with a value.
\<close>

record request_data =
  rd_stateCd :: "string option option"
  rd_checkedOutBy :: "string option option"
  rd_checkedOutDt :: "nat option option"

text \<open>\<^verbatim>\<open>d.get(key, None)\<close>: an absent key and a null value both read as \<^verbatim>\<open>None\<close>.\<close>

definition dict_get :: "'a option option \<Rightarrow> 'a option" where
  "dict_get v = (case v of None \<Rightarrow> None | Some x \<Rightarrow> x)"

text \<open>
  What \<^verbatim>\<open>name_request.py\<close> takes from outside: the authorisation check, the id of the
  user \<^verbatim>\<open>name_request_service_account\<close>, the token \<^verbatim>\<open>str(uuid4())\<close> and the time
  \<^verbatim>\<open>datetime.now()\<close> of this call, the payment gateway (\<^verbatim>\<open>get_payment\<close> answers or
  raises, \<open>None\<close>; \<^verbatim>\<open>refund_payment\<close> returns, \<open>True\<close>, or raises), the lists
  \<^verbatim>\<open>request_editable_states\<close> and \<^verbatim>\<open>contact_editable_states\<close> of
  \<^verbatim>\<open>name_requests/constants.py\<close>, and the handler \<^verbatim>\<open>handle_nr_update\<close> of the base
  resource, none of which is among the sources.
\<close>

record nr_env =
  full_access_to_name_request :: bool
  service_account_id :: nat
  uuid4 :: string
  now :: nat
  get_payment :: "string \<Rightarrow> payment_response option"
  refund_payment :: "string \<Rightarrow> bool"
  request_editable_states :: "string list"
  contact_editable_states :: "string list"
  handle_nr_update :: "request_data option \<Rightarrow> request \<Rightarrow> request"

text \<open>
  Modelled from the spec: \<^verbatim>\<open>is_request_editable\<close> and \<^verbatim>\<open>is_name_request_refundable\<close> of
  \<^verbatim>\<open>namex.services.name_request.name_request_state\<close>, which are not among the sources.
  A state is request-editable when it is one of the request-editable states, and
  refundable when it is DRAFT (``REQUEST\_REFUND is illegal unless current state is
  refundable (DRAFT only)'').
\<close>

definition is_request_editable :: "nr_env \<Rightarrow> string \<Rightarrow> bool" where
  "is_request_editable env nr_state = (nr_state \<in> set (request_editable_states env))"

definition is_name_request_refundable :: "string \<Rightarrow> bool" where
  "is_name_request_refundable nr_state = (nr_state \<in> set [DRAFT])"

text \<open>
  Modelled from the spec: \<^verbatim>\<open>handle_nr_patch\<close> and \<^verbatim>\<open>update_nr\<close> of
  \<^verbatim>\<open>BaseNameRequestResource\<close>, which are not among the sources. The partial edit
  ``updates only fields present in payload; never clears fields merely by omission'';
  the state change sets \<^verbatim>\<open>stateCd\<close>, resets \<^verbatim>\<open>furnished\<close> to \<^verbatim>\<open>'N'\<close> on entering
  INPROGRESS from another state, runs the handler and persists the request.
\<close>

definition handle_nr_patch :: "request_data option \<Rightarrow> request \<Rightarrow> request" where
  "handle_nr_patch data m =
     (case data of
        None \<Rightarrow> m
      | Some d \<Rightarrow>
          m\<lparr>checkedOutBy := (case rd_checkedOutBy d of None \<Rightarrow> checkedOutBy m | Some v \<Rightarrow> v),
            checkedOutDt := (case rd_checkedOutDt d of None \<Rightarrow> checkedOutDt m | Some v \<Rightarrow> v)\<rparr>)"

definition update_nr :: "request \<Rightarrow> string \<Rightarrow> (request \<Rightarrow> request) \<Rightarrow> world \<Rightarrow> request \<times> world" where
  "update_nr nr_model new_state on_state_changed w =
     (let m1 = nr_model\<lparr>stateCd := new_state,
                 furnished := (if stateCd nr_model \<noteq> INPROGRESS \<and> new_state = INPROGRESS
                               then ''N'' else furnished nr_model)\<rparr>;
          m2 = on_state_changed m1
      in (m2, save_to_db m2 w))"

text \<open>
  Modelled from the spec: \<^verbatim>\<open>update_solr\<close> of the base resource, which is not among the
  sources: the document of the request is deleted from the search index for the entity
  types of the whitelist, which \<^verbatim>\<open>handle_patch_rollback\<close> spells out.
\<close>

definition solr_entity_types :: "string list" where
  "solr_entity_types = [''CR'', ''UL'', ''BC'', ''CP'', ''PA'', ''XCR'', ''XUL'', ''XCP'', ''CC'',
     ''FI'', ''XCR'', ''XUL'', ''XCP'']"

definition update_solr :: "request \<Rightarrow> world \<Rightarrow> world" where
  "update_solr nr_model w =
     (case entity_type_cd nr_model of
        None \<Rightarrow> w
      | Some t \<Rightarrow>
          if t \<in> set solr_entity_types
          then w\<lparr>solr_deletes := solr_deletes w @ [(''possible.conflicts'', nrNum nr_model)]\<rparr>
          else w)"

section \<open>The name request resource: \<^verbatim>\<open>name_request.py\<close>\<close>

text \<open>\<^verbatim>\<open>handle_exception\<close> with the status code the \<^verbatim>\<open>except\<close> clauses of \<^verbatim>\<open>patch\<close> choose:
  423 for \<^verbatim>\<open>NameRequestIsInProgressError\<close>, 500 for every other exception.\<close>

definition patch_except :: "exn \<Rightarrow> response" where
  "patch_except err =
     (case err of
        NameRequestIsInProgressError \<Rightarrow> Failure 423 err
      | _ \<Rightarrow> Failure 500 err)"

subsection \<open>\<^verbatim>\<open>NameRequestResource.put\<close>\<close>

definition valid_update_states :: "string list" where
  "valid_update_states = [DRAFT, COND_RESERVE, RESERVED, PENDING_PAYMENT]"

definition validate_put_request :: "request_data option \<Rightarrow> exn + (bool \<times> string)" where
  "validate_put_request data =
     (case data of
        None \<Rightarrow> Inl AttributeError
      | Some d \<Rightarrow>
          (case dict_get (rd_stateCd d) of
             None \<Rightarrow> Inr (False, [])
           | Some s \<Rightarrow> Inr (s \<in> set valid_update_states, [])))"

definition put :: "nr_env \<Rightarrow> nat \<Rightarrow> request_data option \<Rightarrow> world \<Rightarrow> response \<times> world" where
  "put env nr_id' request_json w =
     (if \<not> full_access_to_name_request env
      then (Message 403 ''You do not have access to this NameRequest.'', w)
      else
        (case query_get nr_id' w of
           None \<Rightarrow> (Failure 500 AttributeError, w)
         | Some nr_model \<Rightarrow>
             (case validate_put_request request_json of
                Inl err \<Rightarrow> (Failure 500 err, w)
              | Inr (is_valid_put, msg) \<Rightarrow>
                  (let validation_msg =
                         (if \<not> length msg > 0 then msg else ''Invalid request for PUT'')
                   in if \<not> is_valid_put
                      then (Failure 500 (InvalidInputError validation_msg), w)
                      else if stateCd nr_model \<in> set valid_update_states
                      then (let (m, w1) = update_nr nr_model (stateCd nr_model)
                                            (handle_nr_update env request_json) w
                            in (Ok200 m, record_event Event_PUT m w1))
                      else (Ok200 nr_model, w)))))"

subsection \<open>\<^verbatim>\<open>NameRequestFields.patch\<close>\<close>

text \<open>
  \<^verbatim>\<open>str.upper\<close> on the ASCII letters. The action is a segment of the URL path and is
  modelled for ASCII tokens only: on other characters Python's \<^verbatim>\<open>upper\<close> follows Unicode
  (a dotless i becomes \<^verbatim>\<open>I\<close>, a long s becomes \<^verbatim>\<open>S\<close>), which \<open>upper\<close> does not.
\<close>

definition upper_char :: "char \<Rightarrow> char" where
  "upper_char c =
     (case map_of (zip ''abcdefghijklmnopqrstuvwxyz'' ''ABCDEFGHIJKLMNOPQRSTUVWXYZ'') c of
        None \<Rightarrow> c
      | Some u \<Rightarrow> u)"

definition upper :: "string \<Rightarrow> string" where
  "upper s = map upper_char s"

text \<open>Lines 180 to 187: the action is upper-cased, and an action that is not a value of
  the enumeration becomes \<^verbatim>\<open>EDIT\<close>.\<close>

definition resolve_action :: "string \<Rightarrow> string" where
  "resolve_action nr_action =
     (let a = upper nr_action in if has_value a then a else EDIT)"

text \<open>The local function \<^verbatim>\<open>initialize\<close>: it raises, or leaves the model (with the owner
  reassigned on a checkout) and the request data of this call.\<close>

definition initialize :: "nr_env \<Rightarrow> string \<Rightarrow> request \<Rightarrow> request_data option
    \<Rightarrow> exn + (request \<times> request_data option)" where
  "initialize env nr_action nr_model request_json =
     (let checked_out =
            Inr (nr_model\<lparr>userId := service_account_id env\<rparr>,
                 Some \<lparr>rd_stateCd = None,
                       rd_checkedOutBy = Some (Some (uuid4 env)),
                       rd_checkedOutDt = Some (Some (now env))\<rparr>)
      in
      if nr_action = CHECKOUT then
        (case checkedOutBy nr_model of
           None \<Rightarrow>
             if \<not> is_request_editable env (stateCd nr_model)
             then Inl NameRequestIsInProgressError
             else checked_out
         | Some holder \<Rightarrow>
             (case request_json of
                None \<Rightarrow> Inl AttributeError
              | Some j \<Rightarrow>
                  if Some holder \<noteq> dict_get (rd_checkedOutBy j)
                  then Inl NameRequestIsInProgressError
                  else checked_out))
      else if nr_action = CHECKIN then
        Inr (nr_model, Some \<lparr>rd_stateCd = None, rd_checkedOutBy = Some None,
                              rd_checkedOutDt = Some None\<rparr>)
      else if nr_action = REQUEST_REFUND \<and> \<not> is_name_request_refundable (stateCd nr_model) then
        Inl NameRequestIsInProgressError
      else Inr (nr_model, request_json))"

text \<open>\<^verbatim>\<open>', '.join(xs)\<close>\<close>

fun join :: "string \<Rightarrow> string list \<Rightarrow> string" where
  "join sep [] = []"
| "join sep [x] = x"
| "join sep (x # y # ys) = x @ sep @ join sep (y # ys)"

text \<open>The local function \<^verbatim>\<open>validate_patch_request\<close>. Building the first message raises
  a \<^verbatim>\<open>TypeError\<close> when \<^verbatim>\<open>stateCd\<close> is present and null.\<close>

definition validate_patch_request :: "nr_env \<Rightarrow> string \<Rightarrow> request \<Rightarrow> request_data option
    \<Rightarrow> exn + (bool \<times> string)" where
  "validate_patch_request env nr_action nr_model data =
     (let check_action = (\<lambda>(is_valid, msg).
            if \<not> has_value nr_action
            then (False, ''Invalid Name Request PATCH action, please use one of [''
                         @ join '', '' NameRequestPatchActions @ '']'')
            else (is_valid, msg))
      in
      case data of
        None \<Rightarrow> Inl AttributeError
      | Some d \<Rightarrow>
          (let request_state =
                 (case rd_stateCd d of None \<Rightarrow> Some (stateCd nr_model) | Some v \<Rightarrow> v)
           in
           if request_state \<in> Some ` set (request_editable_states env) then
             Inr (check_action (True, []))
           else if request_state \<in> Some ` set (contact_editable_states env) then
             Inr (check_action (True, []))
           else
             (case rd_stateCd d of
                Some None \<Rightarrow> Inl TypeError
              | Some (Some s) \<Rightarrow>
                  Inr (check_action (False,
                    ''Invalid state change requested - the Name Request state cannot be changed to [''
                    @ s @ '']''))
              | None \<Rightarrow>
                  Inr (check_action (False,
                    ''Invalid state change requested - the Name Request state cannot be changed to [''
                    @ [] @ '']'')))))"

subsection \<open>The handlers of the actions\<close>

definition handle_patch_checkout :: "request_data option \<Rightarrow> request \<Rightarrow> world
    \<Rightarrow> (exn + request) \<times> world" where
  "handle_patch_checkout request_data nr_model w =
     (let (m, w1) = update_nr nr_model INPROGRESS (handle_nr_patch request_data) w
      in (Inr m, record_event (Event_PATCH @ '' [checkout]'') m w1))"

definition handle_patch_checkin :: "request_data option \<Rightarrow> request \<Rightarrow> world
    \<Rightarrow> (exn + request) \<times> world" where
  "handle_patch_checkin request_data nr_model w =
     (let (m, w1) = update_nr nr_model DRAFT (handle_nr_patch request_data) w
      in (Inr m, record_event (Event_PATCH @ '' [checkin]'') m w1))"

definition handle_patch_edit :: "request_data option \<Rightarrow> request \<Rightarrow> world
    \<Rightarrow> (exn + request) \<times> world" where
  "handle_patch_edit request_data nr_model w =
     (let (m, w1) = update_nr nr_model (stateCd nr_model) (handle_nr_patch request_data) w
      in (Inr m, record_event (Event_PATCH @ '' [edit]'') m w1))"

definition handle_patch_resend :: "request_data option \<Rightarrow> request \<Rightarrow> world
    \<Rightarrow> (exn + request) \<times> world" where
  "handle_patch_resend request_data nr_model w =
     (let (m, w1) = update_nr nr_model (stateCd nr_model) (handle_nr_patch request_data) w
      in (Inr m, record_event (Event_PATCH @ '' [re-send]'') m w1))"

definition handle_patch_cancel :: "request_data option \<Rightarrow> request \<Rightarrow> world
    \<Rightarrow> (exn + request) \<times> world" where
  "handle_patch_cancel request_data nr_model w =
     (let (m, w1) = update_nr nr_model CANCELLED (handle_nr_patch request_data) w;
          w2 = update_solr m w1
      in (Inr m, record_event (Event_PATCH @ '' [cancel]'') m w2))"

text \<open>\<^verbatim>\<open>'{:.2f}'.format(v)\<close> for an amount in cents.\<close>

definition digit :: "nat \<Rightarrow> char" where
  "digit d = ''0123456789'' ! (d mod 10)"

fun digits :: "nat \<Rightarrow> string" where
  "digits n = (if n < 10 then [digit n] else digits (n div 10) @ [digit (n mod 10)])"

definition format_2f :: "int \<Rightarrow> string" where
  "format_2f v =
     (let c = nat \<bar>v\<bar>
      in (if v < 0 then ''-'' else []) @ digits (c div 100) @ ''.''
         @ [digit (c div 10), digit c])"

text \<open>
  The refund loop, lines 412 to 425, over the payments of the request in order. A run
  ends when the list is exhausted or when a call of the gateway raises: the payments
  from the one being processed on are then as they were. The run keeps the exception
  that ended it, the payments as persisted, the amount accumulated and the calls made.
\<close>

record refund_run =
  run_raised :: "exn option"
  run_payments :: "payment list"
  run_refund_value :: int
  run_calls :: "gateway_call list"

definition valid_states :: "string list" where
  "valid_states = [PaymentState_APPROVED, PaymentState_COMPLETED, PaymentState_PARTIAL]"

fun refund_all :: "nr_env \<Rightarrow> payment list \<Rightarrow> int \<Rightarrow> refund_run" where
  "refund_all env [] refund_value =
     \<lparr>run_raised = None, run_payments = [], run_refund_value = refund_value, run_calls = []\<rparr>"
| "refund_all env (p # ps) refund_value =
     (if payment_status_code p \<in> set valid_states then
        (case get_payment env (payment_token p) of
           None \<Rightarrow>
             \<lparr>run_raised = Some PaymentServiceError, run_payments = p # ps,
              run_refund_value = refund_value, run_calls = [GetPayment (payment_token p)]\<rparr>
         | Some payment_response \<Rightarrow>
             if total payment_response \<noteq> 0 \<and> \<not> refund_payment env (payment_token p) then
               \<lparr>run_raised = Some PaymentServiceError, run_payments = p # ps,
                run_refund_value = refund_value,
                run_calls = [GetPayment (payment_token p), RefundPayment (payment_token p)]\<rparr>
             else
               (let rest = refund_all env ps
                      (refund_value + (case receipts payment_response of [] \<Rightarrow> 0 | a # _ \<Rightarrow> a))
                in rest\<lparr>run_payments :=
                          p\<lparr>payment_status_code := PaymentState_REFUND_REQUESTED\<rparr> # run_payments rest,
                        run_calls :=
                          GetPayment (payment_token p)
                          # (if total payment_response \<noteq> 0 then [RefundPayment (payment_token p)] else [])
                          @ run_calls rest\<rparr>))
      else
        (let rest = refund_all env ps refund_value
         in rest\<lparr>run_payments := p # run_payments rest\<rparr>))"

definition handle_patch_request_refund :: "nr_env \<Rightarrow> request_data option \<Rightarrow> request \<Rightarrow> world
    \<Rightarrow> (exn + request) \<times> world" where
  "handle_patch_request_refund env request_data nr_model w =
     (let (m1, w1) = update_nr nr_model REFUND_REQUESTED (handle_nr_patch request_data) w;
          run = (if \<not> list_ex (\<lambda>payment. payment_action payment = REAPPLY) (payments m1)
                 then refund_all env (payments m1) 0
                 else \<lparr>run_raised = None, run_payments = payments m1, run_refund_value = 0,
                       run_calls = []\<rparr>);
          m2 = m1\<lparr>payments := run_payments run\<rparr>;
          w2 = (save_to_db m2 w1)\<lparr>gateway_calls := gateway_calls w1 @ run_calls run\<rparr>
      in case run_raised run of
           Some err \<Rightarrow> (Inl err, w2)
         | None \<Rightarrow>
             (let w3 = publish_email_notification (nrNum m2) ''refund''
                         (Some (format_2f (run_refund_value run))) w2;
                  w4 = update_solr m2 w3
              in (Inr m2, record_event (Event_PATCH @ '' [request-refund]'') m2 w4)))"

text \<open>The dispatch of \<^verbatim>\<open>handle_patch_actions\<close>; an action outside the table has no
  handler and the call of \<^verbatim>\<open>None\<close> raises a \<^verbatim>\<open>TypeError\<close>.\<close>

definition handle_patch_actions :: "nr_env \<Rightarrow> string \<Rightarrow> request_data option \<Rightarrow> request \<Rightarrow> world
    \<Rightarrow> (exn + request) \<times> world" where
  "handle_patch_actions env action request_data model w =
     (if action = CHECKOUT then handle_patch_checkout request_data model w
      else if action = CHECKIN then handle_patch_checkin request_data model w
      else if action = EDIT then handle_patch_edit request_data model w
      else if action = CANCEL then handle_patch_cancel request_data model w
      else if action = RESEND then handle_patch_resend request_data model w
      else if action = REQUEST_REFUND then handle_patch_request_refund env request_data model w
      else (Inl TypeError, w))"

definition patch :: "nr_env \<Rightarrow> nat \<Rightarrow> string \<Rightarrow> request_data option \<Rightarrow> world
    \<Rightarrow> response \<times> world" where
  "patch env nr_id' nr_action_path request_json w =
     (if \<not> full_access_to_name_request env
      then (Message 403 ''You do not have access to this NameRequest.'', w)
      else
        (let nr_action = resolve_action nr_action_path
         in case query_get nr_id' w of
              None \<Rightarrow> (patch_except AttributeError, w)
            | Some nr_model \<Rightarrow>
                (case initialize env nr_action nr_model request_json of
                   Inl err \<Rightarrow> (patch_except err, w)
                 | Inr (nr_model1, request_data) \<Rightarrow>
                     (case validate_patch_request env nr_action nr_model1 request_data of
                        Inl err \<Rightarrow> (patch_except err, w)
                      | Inr (is_valid_patch, msg) \<Rightarrow>
                          (let validation_msg =
                                 (if \<not> length msg > 0 then msg else ''Invalid request for PATCH'')
                           in if \<not> is_valid_patch
                              then (patch_except (InvalidInputError validation_msg), w)
                              else
                                (case handle_patch_actions env nr_action request_data nr_model1 w of
                                   (Inl err, w1) \<Rightarrow> (patch_except err, w1)
                                 | (Inr m, w1) \<Rightarrow> (Ok200 m, w1)))))))"

section \<open>The examiners' resource: \<^verbatim>\<open>requests.py\<close>\<close>

text \<open>
  The body of a PATCH, by the keys \<^verbatim>\<open>Request.patch\<close> reads. \<^verbatim>\<open>get(key, None)\<close> reads an
  absent key and a null alike, so \<open>pj_state\<close>, \<open>pj_corpNum\<close> and \<open>pj_comments\<close> are
  \<open>None\<close> for both; \<^verbatim>\<open>previousStateCd\<close> is tested with \<^verbatim>\<open>in json_input.keys()\<close>, so
  it keeps the difference. Of a comment, \<^verbatim>\<open>id\<close> and \<^verbatim>\<open>comment\<close> are read by subscript:
  \<open>None\<close> is a missing key.
\<close>

record comment_json =
  cj_id :: "int option option"
  cj_comment :: "string option option"

record patch_json =
  pj_state :: "string option"
  pj_previousStateCd :: "string option option"
  pj_corpNum :: "string option"
  pj_comments :: "comment_json list option"

text \<open>
  What \<^verbatim>\<open>requests.py\<close> takes from outside: the id of the user of the token, the
  predicate \<^verbatim>\<open>valid_state_transition(user, nrd, state)\<close> for that user, the time
  \<^verbatim>\<open>datetime.utcnow()\<close> of this call, and \<^verbatim>\<open>NameRequestService.get_expiry_days\<close> and
  \<^verbatim>\<open>create_expiry_date\<close>, none of which is among the sources.
\<close>

record staff_env =
  user_id :: nat
  valid_state_transition :: "request \<Rightarrow> string \<Rightarrow> bool"
  utcnow :: nat
  get_expiry_days :: "string option \<Rightarrow> string option \<Rightarrow> nat"
  create_expiry_date :: "nat \<Rightarrow> nat \<Rightarrow> nat"

text \<open>
  Modelled from the spec: \<^verbatim>\<open>RequestDAO.get_inprogress(user)\<close>, which is not among the
  sources: ``find-in-progress-for-user'', the request in state INPROGRESS that the
  user owns, if there is one.
\<close>

definition get_inprogress :: "nat \<Rightarrow> world \<Rightarrow> request option" where
  "get_inprogress user w = find (\<lambda>r. userId r = user \<and> stateCd r = INPROGRESS) (requests w)"

text \<open>\<^verbatim>\<open>nr.replace('%20', ' ')\<close>\<close>

fun replace_pct20 :: "string \<Rightarrow> string" where
  "replace_pct20 [] = []"
| "replace_pct20 (c # cs) =
     (if take 3 (c # cs) = ''%20'' then CHR '' '' # replace_pct20 (drop 2 cs)
      else c # replace_pct20 cs)"

text \<open>The truth value of an optional string: \<^verbatim>\<open>None\<close> and \<^verbatim>\<open>''\<close> are false.\<close>

definition truthy :: "string option \<Rightarrow> bool" where
  "truthy v = (case v of None \<Rightarrow> False | Some s \<Rightarrow> s \<noteq> [])"

text \<open>Lines 844 to 848 of \<^verbatim>\<open>Request.patch\<close>: the other request of the user goes back to
  its previous state, or to HOLD when it has none.\<close>

definition demote_patch :: "request \<Rightarrow> request" where
  "demote_patch existing_nr =
     (if truthy (previousStateCd existing_nr)
      then existing_nr\<lparr>stateCd := the (previousStateCd existing_nr), previousStateCd := None\<rparr>
      else existing_nr\<lparr>stateCd := HOLD\<rparr>)"

text \<open>The names bound in \<^verbatim>\<open>Request.patch\<close> when line 855 asks \<^verbatim>\<open>start_state in locals()\<close>:
  the test looks the state code up among the names of the local variables.\<close>

definition locals_855 :: "string list" where
  "locals_855 = [''nr'', ''args'', ''kwargs'', ''json_input'', ''user'', ''nrd'', ''start_state'',
     ''state'', ''existing_nr'']"

text \<open>The comment loop builds comments and stores none; it raises a \<^verbatim>\<open>KeyError\<close> at a
  new comment (no id, a null id or the id 0) that has no key \<^verbatim>\<open>comment\<close>.\<close>

definition is_new_comment :: "comment_json \<Rightarrow> bool" where
  "is_new_comment in_comment =
     (case cj_id in_comment of None \<Rightarrow> True | Some None \<Rightarrow> True | Some (Some n) \<Rightarrow> n = 0)"

definition comments_raise :: "patch_json \<Rightarrow> bool" where
  "comments_raise json_input =
     (case pj_comments json_input of
        None \<Rightarrow> False
      | Some cs \<Rightarrow> list_ex (\<lambda>c. is_new_comment c \<and> cj_comment c = None) cs)"

text \<open>
  The block \<^verbatim>\<open>if state:\<close> of \<^verbatim>\<open>Request.patch\<close>, lines 831 to 883, run with a state that is
  not empty: it answers early, or leaves the request as changed in memory and the world
  with the other request of the user demoted. When that other request is the request
  addressed, both names denote one object.
\<close>

definition patch_state :: "staff_env \<Rightarrow> string \<Rightarrow> string \<Rightarrow> request \<Rightarrow> patch_json \<Rightarrow> world
    \<Rightarrow> (response \<times> world) + (request \<times> world)" where
  "patch_state env start_state state nrd json_input w =
     (if state \<notin> set VALID_STATES then Inl (Message 406 ''not a valid state'', w)
      else if \<not> valid_state_transition env nrd state
      then Inl (Message 401 ''Name Request state transition validation failed.'', w)
      else
        (let (nrd0, w1) =
               (case get_inprogress (user_id env) w of
                  None \<Rightarrow> (nrd, w)
                | Some existing_nr \<Rightarrow>
                    (let e = demote_patch existing_nr
                     in (if nr_id existing_nr = nr_id nrd then e else nrd, save_to_db e w)));
             nrd1 = nrd0\<lparr>stateCd := state, userId := user_id env\<rparr>;
             nrd2 = (if start_state \<in> set locals_855 \<and> start_state \<noteq> INPROGRESS
                        \<and> stateCd nrd1 = INPROGRESS
                     then nrd1\<lparr>furnished := ''N''\<rparr> else nrd1);
             nrd3 = (if state \<in> set (COMPLETED_STATE @ [CANCELLED])
                     then (let n = nrd2\<lparr>hasBeenReset := Some False\<rparr>
                           in if stateCd n = CONDITIONAL \<and> consentFlag n = None
                              then n\<lparr>consentFlag := Some ''Y''\<rparr> else n)
                     else nrd2)
         in if comments_raise json_input
            then Inl (Message 500 ''Internal server error'', w1)
            else Inr (nrd3, w1)))"

text \<open>Lines 891 to 900: the expiration date is computed when the request is in a decision
  state, not furnished and without a date.\<close>

definition update_expiration :: "staff_env \<Rightarrow> request \<Rightarrow> request" where
  "update_expiration env nrd =
     (if stateCd nrd \<in> set [APPROVED, REJECTED, CONDITIONAL] \<and> furnished nrd = ''N''
         \<and> expirationDate nrd = None
      then (let expiry_days = get_expiry_days env (request_action_cd nrd) (requestTypeCd nrd)
            in nrd\<lparr>expirationDate := Some (create_expiry_date env (utcnow env) expiry_days),
                   furnished := ''Y''\<rparr>)
      else nrd)"

text \<open>The local function \<^verbatim>\<open>consumeName\<close>: success, the message, and the request with the
  names as the loop leaves them; \<open>consume\<close> is the body of its loop.\<close>

definition consumable :: "name_choice \<Rightarrow> bool" where
  "consumable nrd_name = (name_state nrd_name \<in> set [Name_APPROVED, Name_CONDITION])"

definition consume :: "staff_env \<Rightarrow> patch_json \<Rightarrow> name_choice \<Rightarrow> name_choice" where
  "consume env json_input nrd_name =
     (if consumable nrd_name
      then nrd_name\<lparr>consumptionDate := Some (utcnow env),
                    name_corpNum := pj_corpNum json_input\<rparr>
      else nrd_name)"

definition consumeName :: "staff_env \<Rightarrow> request \<Rightarrow> patch_json \<Rightarrow> bool \<times> string \<times> request" where
  "consumeName env nrd json_input =
     (if \<not> truthy (pj_corpNum json_input)
      then (False, ''\"corpNum\" is required and cannot be empty.'', nrd)
      else
        (let nrd1 = nrd\<lparr>names := map (consume env json_input) (names nrd)\<rparr>;
             consumed = list_ex consumable (names nrd)
         in if \<not> consumed
            then (False, ''Cannot find an Approved or Condition name to be consumed.'', nrd1)
            else (True, [], nrd1)))"

text \<open>\<^verbatim>\<open>Request.patch\<close>. A body that is missing or empty is \<open>None\<close>.\<close>

definition Request_patch :: "staff_env \<Rightarrow> string \<Rightarrow> patch_json option \<Rightarrow> world
    \<Rightarrow> response \<times> world" where
  "Request_patch env nr_path body w =
     (let nr = replace_pct20 nr_path
      in case body of
           None \<Rightarrow> (Message 400 ''No input data provided'', w)
         | Some json_input \<Rightarrow>
             (case find_by_nr nr w of
                None \<Rightarrow> (Message 404 (''Request:'' @ nr @ '' not found''), w)
              | Some nrd \<Rightarrow>
                  (let start_state = stateCd nrd;
                       state = pj_state json_input
                   in case (if truthy state
                            then patch_state env start_state (the state) nrd json_input w
                            else Inr (nrd, w)) of
                        Inl early \<Rightarrow> early
                      | Inr (nrd1, w1) \<Rightarrow>
                          (let nrd2 = (case pj_previousStateCd json_input of
                                         None \<Rightarrow> nrd1
                                       | Some v \<Rightarrow> nrd1\<lparr>previousStateCd := v\<rparr>);
                               nrd3 = update_expiration env nrd2
                           in case (if state = Some CONSUMED
                                    then consumeName env nrd3 json_input
                                    else (True, [], nrd3)) of
                                (success, error_message, nrd4) \<Rightarrow>
                                  if \<not> success then (Message 406 error_message, w1)
                                  else
                                    (let w2 = record_event Event_PATCH nrd4 (save_to_db nrd4 w1);
                                         w3 = (if state \<in> Some ` set [APPROVED, CONDITIONAL, REJECTED]
                                               then publish_email_notification (nrNum nrd4)
                                                      (the state) None w2
                                               else w2)
                                     in (Message 200 (''Request:'' @ nr @ '' - patched''), w3))))))"

text \<open>
  The beginning of \<^verbatim>\<open>Request.put\<close>, lines 955 to 1002: the checks of the body, and the
  demotion of the other request of the user, which is persisted at once. It answers
  early or leaves the world after the demotion. What follows in \<^verbatim>\<open>put\<close> replaces the
  fields of the request addressed and writes no other request.
\<close>

text \<open>An entry of \<^verbatim>\<open>names\<close>: \<^verbatim>\<open>name\<close> and \<^verbatim>\<open>choice\<close> are read by subscript, so \<open>None\<close>
  is a missing key; a \<^verbatim>\<open>name\<close> that is present may be null.\<close>

record name_json =
  nj_name :: "string option option"
  nj_choice :: "nat option"

record put_json =
  uj_nrNum :: "string option"
  uj_state :: "string option"
  uj_names :: "name_json list option"

text \<open>The loop of lines 990 to 992 raises a \<^verbatim>\<open>KeyError\<close>, which nothing catches, at an
  entry without the key \<^verbatim>\<open>name\<close>, or with a name that is not empty and without the key
  \<^verbatim>\<open>choice\<close>; otherwise it marks the choices that have a name.\<close>

definition names_raise :: "name_json list \<Rightarrow> bool" where
  "names_raise ns =
     list_ex (\<lambda>n. case nj_name n of
                     None \<Rightarrow> True
                   | Some v \<Rightarrow> truthy v \<and> nj_choice n = None) ns"

definition name_choice_exists :: "name_json list \<Rightarrow> nat \<Rightarrow> bool" where
  "name_choice_exists ns c =
     list_ex (\<lambda>n. truthy (dict_get (nj_name n)) \<and> nj_choice n = Some c) ns"

definition Request_put_begin :: "staff_env \<Rightarrow> string \<Rightarrow> put_json option \<Rightarrow> world
    \<Rightarrow> response + world" where
  "Request_put_begin env nr body w =
     (case body of
        None \<Rightarrow> Inl (Message 400 ''No input data provided'')
      | Some json_input \<Rightarrow>
          if truthy (uj_nrNum json_input) \<and> uj_nrNum json_input \<noteq> Some nr
          then Inl (Message 400 ''Data contains a different NR# than this resource'')
          else if \<not> truthy (uj_state json_input) then Inl (Message 406 ''state not set'')
          else if the (uj_state json_input) \<notin> set VALID_STATES
          then Inl (Message 406 ''not a valid state'')
          else
            (case find_by_nr nr w of
               None \<Rightarrow> Inl (Message 404 (''Request:'' @ nr @ '' not found''))
             | Some nrd \<Rightarrow>
                 if \<not> valid_state_transition env nrd (the (uj_state json_input))
                 then Inl (Message 401 ''you are not authorized to make these changes'')
                 else
                   (case uj_names json_input of
                      None \<Rightarrow> Inl (Failure 500 TypeError)
                    | Some ns \<Rightarrow>
                        if names_raise ns then Inl (Failure 500 KeyError)
                        else if \<not> name_choice_exists ns 1
                        then Inl (Message 400 ''Data does not include a name choice 1'')
                        else if \<not> name_choice_exists ns 2 \<and> name_choice_exists ns 3
                        then Inl (Message 400
                               ''Data contains a name choice 3 without a name choice 2'')
                        else
                          (case get_inprogress (user_id env) w of
                             None \<Rightarrow> Inr w
                           | Some existing_nr \<Rightarrow>
                               Inr (save_to_db (existing_nr\<lparr>stateCd := HOLD\<rparr>) w)))))"

section \<open>The payment societies resource: \<^verbatim>\<open>payment_societies.py\<close>\<close>

record payment_society_json =
  sj_nrNum :: "string option"
  sj_corpNum :: "string option"
  sj_paymentCompletionDate :: "nat option"
  sj_paymentStatusCode :: "string option"
  sj_paymentFeeCode :: "string option"
  sj_paymentType :: "string option"
  sj_paymentAmount :: "int option"
  sj_paymentJson :: "string option"
  sj_paymentAction :: "string option"

text \<open>
  \<^verbatim>\<open>PaymentSocieties.post\<close>. The method \<^verbatim>\<open>add_new_nr_number\<close> of the base resource, which
  replaces a temporary NR number by a formal one, is not among the sources and is a
  parameter. A body that is missing or empty is \<open>None\<close>.
\<close>

definition PaymentSocieties_post :: "(request \<Rightarrow> request) \<Rightarrow> payment_society_json option
    \<Rightarrow> world \<Rightarrow> response \<times> world" where
  "PaymentSocieties_post add_new_nr_number body w =
     (case body of
        None \<Rightarrow> (Message 400 ''No input data provided'', w)
      | Some json_input \<Rightarrow>
          if \<not> truthy (sj_nrNum json_input)
          then (Message 406 ''nr_num not set in json input'', w)
          else
            (case find_by_nr (the (sj_nrNum json_input)) w of
               None \<Rightarrow>
                 (Message 404 (''Request: '' @ the (sj_nrNum json_input)
                               @ '' not found in requests table''), w)
             | Some nrd0 \<Rightarrow>
                 (let nrd = add_new_nr_number nrd0;
                      ps_instance =
                        \<lparr>ps_nrNum = nrNum nrd,
                         ps_corpNum = sj_corpNum json_input,
                         ps_paymentCompletionDate = sj_paymentCompletionDate json_input,
                         ps_paymentStatusCode = sj_paymentStatusCode json_input,
                         ps_paymentFeeCode = sj_paymentFeeCode json_input,
                         ps_paymentType = sj_paymentType json_input,
                         ps_paymentAmount = sj_paymentAmount json_input,
                         ps_paymentJson = sj_paymentJson json_input,
                         ps_paymentAction = sj_paymentAction json_input\<rparr>;
                      w1 = w\<lparr>payment_societies := payment_societies w @ [ps_instance]\<rparr>;
                      nrd1 = (if stateCd nrd = PENDING_PAYMENT then nrd\<lparr>stateCd := ''DRAFT''\<rparr>
                              else nrd)
                  in (Ok200_payment_society ps_instance, save_to_db nrd1 w1))))"

section \<open>Concrete inputs\<close>

text \<open>
  An environment, a draft request and a world, for evaluating the resources. In
  \<open>env0\<close> the gateway knows two payments and refuses to refund the first.
\<close>

definition env0 :: nr_env where
  "env0 = \<lparr>full_access_to_name_request = True, service_account_id = 7,
     uuid4 = ''3f2c'', now = 1000,
     get_payment = (\<lambda>t. if t = ''tok-1'' then Some \<lparr>total = 3000, receipts = [3000]\<rparr>
                         else if t = ''tok-2'' then Some \<lparr>total = 1000, receipts = [1000]\<rparr>
                         else None),
     refund_payment = (\<lambda>t. t \<noteq> ''tok-1''),
     request_editable_states = [DRAFT, RESERVED, COND_RESERVE],
     contact_editable_states = [APPROVED, REJECTED, CONDITIONAL],
     handle_nr_update = (\<lambda>d m. m)\<rparr>"

definition nr0 :: request where
  "nr0 = \<lparr>nr_id = 1, nrNum = ''NR 0000001'', stateCd = DRAFT, previousStateCd = None,
     userId = 3, furnished = ''N'', expirationDate = None, hasBeenReset = None,
     consentFlag = None, request_action_cd = None, requestTypeCd = None,
     entity_type_cd = Some ''CR'', checkedOutBy = None, checkedOutDt = None,
     names = [], payments = []\<rparr>"

definition world_of :: "request list \<Rightarrow> world" where
  "world_of rs = \<lparr>requests = rs, payment_societies = [], events = [], notifications = [],
     gateway_calls = [], solr_deletes = []\<rparr>"

definition no_data :: request_data where
  "no_data = \<lparr>rd_stateCd = None, rd_checkedOutBy = None, rd_checkedOutDt = None\<rparr>"

section \<open>Properties of the name request resource\<close>

lemma has_value_simps:
  "has_value CHECKOUT" "has_value CHECKIN" "has_value EDIT" "has_value CANCEL"
  "has_value RESEND" "has_value REQUEST_REFUND"
  by (simp_all add: has_value_def NameRequestPatchActions_def)

lemma resolve_action_known: "has_value (upper a) \<Longrightarrow> resolve_action a = upper a"
  by (simp add: resolve_action_def)

lemma resolve_action_unknown: "\<not> has_value (upper a) \<Longrightarrow> resolve_action a = EDIT"
  by (simp add: resolve_action_def)

lemma action_distinct:
  "REQUEST_REFUND \<noteq> CHECKOUT" "REQUEST_REFUND \<noteq> CHECKIN" "CHECKOUT \<noteq> CHECKIN"
  "EDIT \<noteq> CHECKOUT" "EDIT \<noteq> CHECKIN" "EDIT \<noteq> REQUEST_REFUND"
  by (simp_all add: Action_defs)

text \<open>
  C3. A \<^verbatim>\<open>REQUEST_REFUND\<close> on a name request whose state is not refundable (not DRAFT)
  ends in the in-progress error, answered with status 423, and the world is as it was:
  no state change, no payment update, no call of the gateway, no notification, no event.
\<close>

theorem request_refund_not_refundable:
  assumes "full_access_to_name_request env"
    and "query_get i w = Some nr"
    and "upper a = REQUEST_REFUND"
    and "stateCd nr \<noteq> DRAFT"
  shows "patch env i a request_json w = (Failure 423 NameRequestIsInProgressError, w)"
proof -
  have act: "resolve_action a = REQUEST_REFUND"
    using assms(3) by (simp add: resolve_action_known has_value_simps)
  have init: "initialize env REQUEST_REFUND nr request_json = Inl NameRequestIsInProgressError"
    using assms(4) by (simp add: initialize_def action_distinct is_name_request_refundable_def)
  show ?thesis
    using assms(1,2) by (simp add: patch_def act init patch_except_def)
qed

theorem request_refund_not_refundable_witness:
  "patch env0 1 ''request_refund'' None (world_of [nr0\<lparr>stateCd := APPROVED\<rparr>])
     = (Failure 423 NameRequestIsInProgressError, world_of [nr0\<lparr>stateCd := APPROVED\<rparr>])"
proof -
  have 1: "full_access_to_name_request env0" by (simp add: env0_def)
  have 2: "query_get 1 (world_of [nr0\<lparr>stateCd := APPROVED\<rparr>]) = Some (nr0\<lparr>stateCd := APPROVED\<rparr>)"
    by (simp add: query_get_def world_of_def nr0_def)
  have 3: "upper ''request_refund'' = REQUEST_REFUND"
    by (simp add: upper_def upper_char_def REQUEST_REFUND_def)
  have 4: "stateCd (nr0\<lparr>stateCd := APPROVED\<rparr>) \<noteq> DRAFT"
    by (simp add: State_defs)
  show ?thesis by (rule request_refund_not_refundable [OF 1 2 3 4])
qed

lemma find_Some_id: "find (\<lambda>r. nr_id r = i) rs = Some r \<Longrightarrow> nr_id r = i"
  by (induction rs) (auto split: if_splits)

lemma query_get_id: "query_get i w = Some r \<Longrightarrow> nr_id r = i"
  unfolding query_get_def by (rule find_Some_id)

lemma find_map_replace:
  "find (\<lambda>r. nr_id r = i) rs = Some r \<Longrightarrow> nr_id m = i \<Longrightarrow>
   find (\<lambda>r. nr_id r = i) (map (\<lambda>x. if nr_id x = i then m else x) rs) = Some m"
  by (induction rs) (auto split: if_splits)

lemma query_get_save_to_db:
  "query_get i w = Some r \<Longrightarrow> nr_id m = i \<Longrightarrow> query_get i (save_to_db m w) = Some m"
  by (simp add: query_get_def save_to_db_def find_map_replace)

lemma query_get_record_event [simp]: "query_get i (record_event v m w) = query_get i w"
  by (simp add: query_get_def record_event_def)

text \<open>
  C1. A \<^verbatim>\<open>CHECKOUT\<close> of a name request that nobody has checked out and whose state is
  request-editable succeeds: the request is answered with status 200, it carries the
  token generated for this call (not null), the time of the call, the state INPROGRESS
  and the service account as owner, and it is persisted so. A \<^verbatim>\<open>CHECKOUT\<close> of a name
  request checked out under a token \<open>A\<close> whose body gives another token \<open>B\<close> ends in
  the in-progress error, answered with status 423, and the world is as it was.
\<close>

theorem checkout_lock:
  assumes access: "full_access_to_name_request env"
    and found: "query_get i w = Some nr"
    and action: "upper a = CHECKOUT"
  shows "(checkedOutBy nr = None \<and> is_request_editable env (stateCd nr) \<longrightarrow>
            (\<exists>m w'. patch env i a request_json w = (Ok200 m, w')
               \<and> checkedOutBy m = Some (uuid4 env) \<and> checkedOutDt m = Some (now env)
               \<and> stateCd m = INPROGRESS \<and> userId m = service_account_id env
               \<and> query_get i w' = Some m))
       \<and> (\<forall>A B j. checkedOutBy nr = Some A \<and> request_json = Some j
              \<and> rd_checkedOutBy j = Some (Some B) \<and> A \<noteq> B \<longrightarrow>
            patch env i a request_json w = (Failure 423 NameRequestIsInProgressError, w))"
proof (intro conjI impI allI)
  have act: "resolve_action a = CHECKOUT"
    using action by (simp add: resolve_action_known has_value_simps)
  {
    assume free: "checkedOutBy nr = None \<and> is_request_editable env (stateCd nr)"
    define d where "d = \<lparr>rd_stateCd = None, rd_checkedOutBy = Some (Some (uuid4 env)),
      rd_checkedOutDt = Some (Some (now env))\<rparr>"
    define m where "m = fst (update_nr (nr\<lparr>userId := service_account_id env\<rparr>) INPROGRESS
      (handle_nr_patch (Some d)) w)"
    have init: "initialize env CHECKOUT nr request_json
        = Inr (nr\<lparr>userId := service_account_id env\<rparr>, Some d)"
      using free by (simp add: initialize_def d_def)
    have valid: "validate_patch_request env CHECKOUT (nr\<lparr>userId := service_account_id env\<rparr>) (Some d)
        = Inr (True, [])"
      using free by (simp add: validate_patch_request_def d_def has_value_simps is_request_editable_def)
    have run: "patch env i a request_json w
        = (Ok200 m, record_event (Event_PATCH @ '' [checkout]'') m (save_to_db m w))"
      using access found
      by (simp add: patch_def act init valid handle_patch_actions_def handle_patch_checkout_def
          update_nr_def m_def Let_def)
    have m_id: "nr_id m = i"
      using query_get_id [OF found] by (simp add: m_def update_nr_def handle_nr_patch_def Let_def)
    have fields: "checkedOutBy m = Some (uuid4 env)" "checkedOutDt m = Some (now env)"
      "stateCd m = INPROGRESS" "userId m = service_account_id env"
      by (simp_all add: m_def update_nr_def handle_nr_patch_def d_def Let_def)
    have stored: "query_get i (record_event (Event_PATCH @ '' [checkout]'') m (save_to_db m w)) = Some m"
      using query_get_save_to_db [OF found m_id] by simp
    show "\<exists>m w'. patch env i a request_json w = (Ok200 m, w')
               \<and> checkedOutBy m = Some (uuid4 env) \<and> checkedOutDt m = Some (now env)
               \<and> stateCd m = INPROGRESS \<and> userId m = service_account_id env
               \<and> query_get i w' = Some m"
      using run fields stored by blast
  }
  {
    fix A B j
    assume held: "checkedOutBy nr = Some A \<and> request_json = Some j
              \<and> rd_checkedOutBy j = Some (Some B) \<and> A \<noteq> B"
    have init: "initialize env CHECKOUT nr request_json = Inl NameRequestIsInProgressError"
      using held by (simp add: initialize_def dict_get_def)
    show "patch env i a request_json w = (Failure 423 NameRequestIsInProgressError, w)"
      using access found by (simp add: patch_def act init patch_except_def)
  }
qed

definition tok_data :: "string \<Rightarrow> request_data" where
  "tok_data t = \<lparr>rd_stateCd = None, rd_checkedOutBy = Some (Some t), rd_checkedOutDt = None\<rparr>"


theorem checkout_lock_witness:
  "(\<exists>m w'. patch env0 1 ''checkout'' None (world_of [nr0]) = (Ok200 m, w')
      \<and> checkedOutBy m = Some ''3f2c'' \<and> checkedOutDt m = Some 1000
      \<and> stateCd m = INPROGRESS \<and> userId m = 7 \<and> query_get 1 w' = Some m)
   \<and> patch env0 1 ''checkout'' (Some (tok_data ''tok-B''))
        (world_of [nr0\<lparr>stateCd := INPROGRESS, checkedOutBy := Some ''tok-A''\<rparr>])
      = (Failure 423 NameRequestIsInProgressError,
         world_of [nr0\<lparr>stateCd := INPROGRESS, checkedOutBy := Some ''tok-A''\<rparr>])"
proof -
  let ?held = "nr0\<lparr>stateCd := INPROGRESS, checkedOutBy := Some ''tok-A''\<rparr>"
  have access: "full_access_to_name_request env0" by (simp add: env0_def)
  have up: "upper ''checkout'' = CHECKOUT"
    by (simp add: upper_def upper_char_def CHECKOUT_def)
  have f1: "query_get 1 (world_of [nr0]) = Some nr0"
    by (simp add: query_get_def world_of_def nr0_def)
  have f2: "query_get 1 (world_of [?held]) = Some ?held"
    by (simp add: query_get_def world_of_def nr0_def)
  have free: "checkedOutBy nr0 = None \<and> is_request_editable env0 (stateCd nr0)"
    by (simp add: nr0_def is_request_editable_def env0_def)
  have held: "checkedOutBy ?held = Some ''tok-A'' \<and> Some (tok_data ''tok-B'') = Some (tok_data ''tok-B'')
       \<and> rd_checkedOutBy (tok_data ''tok-B'') = Some (Some ''tok-B'') \<and> ''tok-A'' \<noteq> ''tok-B''"
    by (simp add: tok_data_def)
  have e: "uuid4 env0 = ''3f2c''" "now env0 = 1000" "service_account_id env0 = 7"
    by (simp_all add: env0_def)
  from checkout_lock [OF access f1 up, of None] free e
  have a: "\<exists>m w'. patch env0 1 ''checkout'' None (world_of [nr0]) = (Ok200 m, w')
      \<and> checkedOutBy m = Some ''3f2c'' \<and> checkedOutDt m = Some 1000
      \<and> stateCd m = INPROGRESS \<and> userId m = 7 \<and> query_get 1 w' = Some m"
    by simp
  from checkout_lock [OF access f2 up, of "Some (tok_data ''tok-B'')"] held
  have b: "patch env0 1 ''checkout'' (Some (tok_data ''tok-B'')) (world_of [?held])
      = (Failure 423 NameRequestIsInProgressError, world_of [?held])"
    by blast
  show ?thesis using a b by blast
qed

definition state_data :: "string \<Rightarrow> request_data" where
  "state_data s = \<lparr>rd_stateCd = Some (Some s), rd_checkedOutBy = None, rd_checkedOutDt = None\<rparr>"


text \<open>
  A request in state APPROVED and a body whose \<^verbatim>\<open>stateCd\<close> is DRAFT: the PUT is answered
  with status 200 and the request as it was; it is not rejected.
\<close>

theorem put_persisted_state_counterexample:
  "stateCd (nr0\<lparr>stateCd := APPROVED\<rparr>) \<notin> set [DRAFT, COND_RESERVE, RESERVED, PENDING_PAYMENT]
   \<and> put env0 1 (Some (state_data DRAFT)) (world_of [nr0\<lparr>stateCd := APPROVED\<rparr>])
       = (Ok200 (nr0\<lparr>stateCd := APPROVED\<rparr>), world_of [nr0\<lparr>stateCd := APPROVED\<rparr>])"
  by (simp add: put_def env0_def query_get_def world_of_def nr0_def validate_put_request_def
      state_data_def dict_get_def valid_update_states_def State_defs)

text \<open>
  C2, as amended. A PUT on a name request whose persisted state is not one of DRAFT,
  COND\_RESERVE, RESERVED and PENDING\_PAYMENT never updates the request: the world is
  as it was. It is answered with status 200 and the unchanged request exactly when the
  caller has access and the \<^verbatim>\<open>stateCd\<close> of the body is one of those four states;
  otherwise with 403 (no access) or with an error (status 500).
\<close>

theorem put_persisted_state:
  assumes found: "query_get i w = Some nr"
    and state: "stateCd nr \<notin> set [DRAFT, COND_RESERVE, RESERVED, PENDING_PAYMENT]"
  shows "snd (put env i request_json w) = w
    \<and> (fst (put env i request_json w) = Ok200 nr) =
        (full_access_to_name_request env
         \<and> (\<exists>d s. request_json = Some d \<and> rd_stateCd d = Some (Some s)
               \<and> s \<in> set [DRAFT, COND_RESERVE, RESERVED, PENDING_PAYMENT]))
    \<and> (fst (put env i request_json w) = Ok200 nr
        \<or> fst (put env i request_json w) = Message 403 ''You do not have access to this NameRequest.''
        \<or> (\<exists>err. fst (put env i request_json w) = Failure 500 err))"
proof -
  have st: "stateCd nr \<notin> set valid_update_states"
    using state by (simp add: valid_update_states_def)
  show ?thesis
  proof (cases "full_access_to_name_request env")
    case False
    then show ?thesis by (simp add: put_def)
  next
    case True
    show ?thesis
    proof (cases request_json)
      case None
      then show ?thesis using True found by (simp add: put_def validate_put_request_def)
    next
      case (Some d)
      show ?thesis
      proof (cases "dict_get (rd_stateCd d)")
        case None
        then have "rd_stateCd d \<noteq> Some (Some s)" for s
          by (auto simp: dict_get_def)
        then show ?thesis using True found Some None
          by (simp add: put_def validate_put_request_def)
      next
        case (Some s)
        then have eq: "rd_stateCd d = Some (Some s)"
          by (auto simp: dict_get_def split: option.splits)
        show ?thesis using True found \<open>request_json = Some d\<close> Some eq st
          by (simp add: put_def validate_put_request_def valid_update_states_def)
      qed
    qed
  qed
qed


definition pay :: "string \<Rightarrow> string \<Rightarrow> string \<Rightarrow> payment" where
  "pay t s a = \<lparr>payment_token = t, payment_status_code = s, payment_action = a\<rparr>"


lemma format_2f_0: "format_2f 0 = ''0.00''"
  by (simp add: format_2f_def digit_def)

lemma world_fields_save [simp]:
  "notifications (save_to_db m w) = notifications w"
  "gateway_calls (save_to_db m w) = gateway_calls w"
  "events (save_to_db m w) = events w"
  "solr_deletes (save_to_db m w) = solr_deletes w"
  by (simp_all add: save_to_db_def)

lemma world_fields_solr [simp]:
  "notifications (update_solr m w) = notifications w"
  "gateway_calls (update_solr m w) = gateway_calls w"
  "requests (update_solr m w) = requests w"
  by (simp_all add: update_solr_def split: option.splits)

lemma world_fields_event [simp]:
  "notifications (record_event v m w) = notifications w"
  "gateway_calls (record_event v m w) = gateway_calls w"
  "requests (record_event v m w) = requests w"
  by (simp_all add: record_event_def)

lemma world_fields_publish [simp]:
  "notifications (publish_email_notification n k v w) = notifications w @ [(n, k, v)]"
  "gateway_calls (publish_email_notification n k v w) = gateway_calls w"
  "requests (publish_email_notification n k v w) = requests w"
  by (simp_all add: publish_email_notification_def)

text \<open>
  C4. When a payment of the request has the action REAPPLY, the refund handler calls the
  payment gateway for no payment, leaves every payment as it was, and publishes exactly
  one more notification: the refund notification of the request with the amount
  \<^verbatim>\<open>0.00\<close>.
\<close>

theorem refund_skipped_after_reapply:
  assumes reapply: "list_ex (\<lambda>payment. payment_action payment = REAPPLY) (payments nr)"
  shows "\<exists>m w'. handle_patch_request_refund env request_data nr w = (Inr m, w')
     \<and> payments m = payments nr
     \<and> gateway_calls w' = gateway_calls w
     \<and> notifications w' = notifications w @ [(nrNum nr, ''refund'', Some ''0.00'')]
     \<and> requests w' = requests (save_to_db m w)"
proof -
  obtain m1 w1 where u: "update_nr nr REFUND_REQUESTED (handle_nr_patch request_data) w = (m1, w1)"
    by (cases "update_nr nr REFUND_REQUESTED (handle_nr_patch request_data) w")
  have m1: "payments m1 = payments nr" "nrNum m1 = nrNum nr" and w1: "w1 = save_to_db m1 w"
    using u by (auto simp: update_nr_def handle_nr_patch_def Let_def split: option.splits)
  have same: "m1\<lparr>payments := payments nr\<rparr> = m1"
    by (simp add: m1(1) [symmetric])
  have "handle_patch_request_refund env request_data nr w
      = (Inr m1, record_event (Event_PATCH @ '' [request-refund]'') m1
          (update_solr m1 (publish_email_notification (nrNum m1) ''refund'' (Some ''0.00'')
             ((save_to_db m1 w1)\<lparr>gateway_calls := gateway_calls w1\<rparr>))))"
    using reapply by (simp add: handle_patch_request_refund_def u m1 same format_2f_0 Let_def)
  then show ?thesis
    using m1 w1 by (simp add: save_to_db_def)
qed

lemma refund_all_stops:
  assumes "run_raised (refund_all env pre v) = None"
    and "payment_status_code p \<in> set valid_states"
    and "get_payment env (payment_token p) = Some r"
    and "total r \<noteq> 0"
    and "\<not> refund_payment env (payment_token p)"
  shows "refund_all env (pre @ p # post) v =
     \<lparr>run_raised = Some PaymentServiceError,
      run_payments = run_payments (refund_all env pre v) @ p # post,
      run_refund_value = run_refund_value (refund_all env pre v),
      run_calls = run_calls (refund_all env pre v)
                  @ [GetPayment (payment_token p), RefundPayment (payment_token p)]\<rparr>"
  using assms
  by (induction pre arbitrary: v) (auto simp: Let_def split: option.splits if_splits)

definition mark :: "payment \<Rightarrow> payment" where
  "mark q = (if payment_status_code q \<in> set valid_states
             then q\<lparr>payment_status_code := PaymentState_REFUND_REQUESTED\<rparr> else q)"

lemma refund_all_marks:
  "run_raised (refund_all env ps v) = None \<Longrightarrow> run_payments (refund_all env ps v) = map mark ps"
  by (induction ps arbitrary: v) (auto simp: Let_def mark_def split: option.splits if_splits)


theorem put_persisted_state_witness:
  "snd (put env0 1 (Some (state_data DRAFT)) (world_of [nr0\<lparr>stateCd := APPROVED\<rparr>]))
     = world_of [nr0\<lparr>stateCd := APPROVED\<rparr>]
   \<and> fst (put env0 1 (Some (state_data DRAFT)) (world_of [nr0\<lparr>stateCd := APPROVED\<rparr>]))
     = Ok200 (nr0\<lparr>stateCd := APPROVED\<rparr>)
   \<and> snd (put env0 1 (Some (state_data REJECTED)) (world_of [nr0\<lparr>stateCd := APPROVED\<rparr>]))
     = world_of [nr0\<lparr>stateCd := APPROVED\<rparr>]
   \<and> fst (put env0 1 (Some (state_data REJECTED)) (world_of [nr0\<lparr>stateCd := APPROVED\<rparr>]))
     \<noteq> Ok200 (nr0\<lparr>stateCd := APPROVED\<rparr>)"
proof -
  let ?nr = "nr0\<lparr>stateCd := APPROVED\<rparr>"
  have found: "query_get 1 (world_of [?nr]) = Some ?nr"
    by (simp add: query_get_def world_of_def nr0_def)
  have state: "stateCd ?nr \<notin> set [DRAFT, COND_RESERVE, RESERVED, PENDING_PAYMENT]"
    by (simp add: State_defs)
  have access: "full_access_to_name_request env0" by (simp add: env0_def)
  have ok: "\<exists>d s. Some (state_data DRAFT) = Some d \<and> rd_stateCd d = Some (Some s)
      \<and> s \<in> set [DRAFT, COND_RESERVE, RESERVED, PENDING_PAYMENT]"
    by (simp add: state_data_def)
  have bad: "\<not> (\<exists>d s. Some (state_data REJECTED) = Some d \<and> rd_stateCd d = Some (Some s)
      \<and> s \<in> set [DRAFT, COND_RESERVE, RESERVED, PENDING_PAYMENT])"
    by (simp add: state_data_def State_defs)
  show ?thesis
    using put_persisted_state [OF found state, of env0 "Some (state_data DRAFT)"]
      put_persisted_state [OF found state, of env0 "Some (state_data REJECTED)"]
      access ok bad
    by blast
qed

definition nr_reapplied :: request where
  "nr_reapplied = nr0\<lparr>payments := [pay ''tok-2'' ''COMPLETED'' ''CREATE'',
     pay ''tok-9'' ''COMPLETED'' ''REAPPLY'']\<rparr>"

theorem refund_skipped_after_reapply_witness:
  "\<exists>m w'. handle_patch_request_refund env0 (Some no_data) nr_reapplied (world_of [nr_reapplied])
        = (Inr m, w')
     \<and> payments m = payments nr_reapplied
     \<and> gateway_calls w' = []
     \<and> notifications w' = [(''NR 0000001'', ''refund'', Some ''0.00'')]
     \<and> requests w' = requests (save_to_db m (world_of [nr_reapplied]))"
proof -
  have r: "list_ex (\<lambda>payment. payment_action payment = REAPPLY) (payments nr_reapplied)"
    by (simp add: nr_reapplied_def pay_def REAPPLY_def)
  have f: "gateway_calls (world_of [nr_reapplied]) = []"
    "notifications (world_of [nr_reapplied]) = []" "nrNum nr_reapplied = ''NR 0000001''"
    by (simp_all add: world_of_def nr_reapplied_def nr0_def)
  show ?thesis
    using refund_skipped_after_reapply [OF r, of env0 "Some no_data" "world_of [nr_reapplied]"]
    by (simp add: f)
qed

definition nr_two :: request where
  "nr_two = nr0\<lparr>payments := [pay ''tok-1'' ''APPROVED'' ''CREATE'',
     pay ''tok-2'' ''COMPLETED'' ''CREATE'']\<rparr>"

text \<open>
  When no call of the gateway raises for an eligible payment, the loop runs to its end,
  and then every eligible payment is marked.
\<close>

lemma refund_all_completes:
  "\<forall>p \<in> set ps. payment_status_code p \<in> set valid_states \<longrightarrow>
      (\<exists>r. get_payment env (payment_token p) = Some r
           \<and> (total r \<noteq> 0 \<longrightarrow> refund_payment env (payment_token p)))
   \<Longrightarrow> run_raised (refund_all env ps v) = None"
  by (induction ps arbitrary: v) (auto simp: Let_def)

text \<open>
  When the refund call raises for an eligible payment whose total is not zero, the loop
  and the handler end there with that exception. The payments before it stay as
  processed (marked when eligible). That payment has been fetched and its refund
  attempted, but it is not marked; every later payment is persisted as it was and no
  call is made for it. Neither a notification nor an event follows.
\<close>

lemma refund_raise_ends_handler:
  assumes found: "query_get (nr_id nr) w = Some nr"
    and no_reapply: "\<not> list_ex (\<lambda>payment. payment_action payment = REAPPLY) (payments nr)"
    and split: "payments nr = pre @ p # post"
    and pre_ok: "run_raised (refund_all env pre 0) = None"
    and eligible: "payment_status_code p \<in> set valid_states"
    and fetched: "get_payment env (payment_token p) = Some r"
    and nonzero: "total r \<noteq> 0"
    and fails: "\<not> refund_payment env (payment_token p)"
  shows "\<exists>m w'. handle_patch_request_refund env request_data nr w = (Inl PaymentServiceError, w')
     \<and> query_get (nr_id nr) w' = Some m
     \<and> payments m = map mark pre @ p # post
     \<and> gateway_calls w' = gateway_calls w @ run_calls (refund_all env pre 0)
          @ [GetPayment (payment_token p), RefundPayment (payment_token p)]
     \<and> RefundPayment (payment_token p) \<in> set (gateway_calls w')
     \<and> notifications w' = notifications w
     \<and> events w' = events w"
proof -
  obtain m1 w1 where u: "update_nr nr REFUND_REQUESTED (handle_nr_patch request_data) w = (m1, w1)"
    by (cases "update_nr nr REFUND_REQUESTED (handle_nr_patch request_data) w")
  have m1: "payments m1 = payments nr" "nr_id m1 = nr_id nr" and w1: "w1 = save_to_db m1 w"
    using u by (auto simp: update_nr_def handle_nr_patch_def Let_def split: option.splits)
  let ?run = "refund_all env (pre @ p # post) 0"
  have run: "?run = \<lparr>run_raised = Some PaymentServiceError,
      run_payments = run_payments (refund_all env pre 0) @ p # post,
      run_refund_value = run_refund_value (refund_all env pre 0),
      run_calls = run_calls (refund_all env pre 0)
                  @ [GetPayment (payment_token p), RefundPayment (payment_token p)]\<rparr>"
    by (rule refund_all_stops [OF pre_ok eligible fetched nonzero fails])
  define m2 where "m2 = m1\<lparr>payments := map mark pre @ p # post\<rparr>"
  define w2 where "w2 = (save_to_db m2 w1)\<lparr>gateway_calls := gateway_calls w1
      @ run_calls (refund_all env pre 0)
      @ [GetPayment (payment_token p), RefundPayment (payment_token p)]\<rparr>"
  have res: "handle_patch_request_refund env request_data nr w = (Inl PaymentServiceError, w2)"
    using no_reapply
    by (simp add: handle_patch_request_refund_def u m1 split run refund_all_marks [OF pre_ok]
        m2_def w2_def Let_def)
  have id2: "nr_id m2 = nr_id nr" by (simp add: m2_def m1)
  have "query_get (nr_id nr) w1 = Some m1"
    unfolding w1 by (rule query_get_save_to_db [OF found m1(2)])
  then have "query_get (nr_id nr) (save_to_db m2 w1) = Some m2"
    by (rule query_get_save_to_db [OF _ id2])
  then have stored: "query_get (nr_id nr) w2 = Some m2"
    by (simp add: w2_def query_get_def)
  have rest: "payments m2 = map mark pre @ p # post"
    "gateway_calls w2 = gateway_calls w @ run_calls (refund_all env pre 0)
          @ [GetPayment (payment_token p), RefundPayment (payment_token p)]"
    "notifications w2 = notifications w" "events w2 = events w"
    by (simp_all add: m2_def w2_def w1)
  show ?thesis
    using res stored rest by simp
qed

text \<open>
  C5, on the code: a draft request with two eligible payments, where the gateway answers
  \<^verbatim>\<open>get_payment\<close> for both and \<^verbatim>\<open>refund_payment\<close> raises for the first. The exception
  leaves the loop, the handler and \<^verbatim>\<open>patch\<close>, which answers with status 500. The second
  payment is eligible and is still neither fetched nor marked, nothing is accumulated
  for it, and no notification is published; the state change to REFUND\_REQUESTED made
  before the loop stays.
\<close>

theorem refund_raise_blocks_later_payments:
  "\<not> refund_payment env0 ''tok-1''
   \<and> get_payment env0 ''tok-2'' = Some \<lparr>total = 1000, receipts = [1000]\<rparr>
   \<and> refund_payment env0 ''tok-2''
   \<and> payment_status_code (pay ''tok-2'' ''COMPLETED'' ''CREATE'') \<in> set valid_states
   \<and> patch env0 1 ''request_refund'' (Some no_data) (world_of [nr_two])
      = (Failure 500 PaymentServiceError,
         (world_of [nr_two\<lparr>stateCd := REFUND_REQUESTED\<rparr>])
           \<lparr>gateway_calls := [GetPayment ''tok-1'', RefundPayment ''tok-1'']\<rparr>)"
proof -
  have act: "resolve_action ''request_refund'' = REQUEST_REFUND"
    by (simp add: resolve_action_def has_value_def NameRequestPatchActions_def upper_def
        upper_char_def Action_defs)
  have found: "query_get (Suc 0) (world_of [nr_two]) = Some nr_two"
    by (simp add: query_get_def world_of_def nr_two_def nr0_def)
  have init: "initialize env0 REQUEST_REFUND nr_two (Some no_data) = Inr (nr_two, Some no_data)"
    by (simp add: initialize_def action_distinct is_name_request_refundable_def nr_two_def
        nr0_def)
  have valid: "validate_patch_request env0 REQUEST_REFUND nr_two (Some no_data) = Inr (True, [])"
    by (simp add: validate_patch_request_def has_value_simps no_data_def nr_two_def nr0_def
        env0_def)
  have handler: "handle_patch_request_refund env0 (Some no_data) nr_two (world_of [nr_two])
      = (Inl PaymentServiceError,
         (world_of [nr_two\<lparr>stateCd := REFUND_REQUESTED\<rparr>])
           \<lparr>gateway_calls := [GetPayment ''tok-1'', RefundPayment ''tok-1'']\<rparr>)"
    by (simp add: handle_patch_request_refund_def update_nr_def handle_nr_patch_def no_data_def
        nr_two_def nr0_def pay_def world_of_def save_to_db_def env0_def valid_states_def
        Payment_defs State_defs Let_def)
  have access: "full_access_to_name_request env0"
    by (simp add: env0_def)
  have dispatch: "handle_patch_actions env0 REQUEST_REFUND d m w
      = handle_patch_request_refund env0 d m w" for d m w
    by (simp add: handle_patch_actions_def Action_defs)
  have run: "patch env0 1 ''request_refund'' (Some no_data) (world_of [nr_two])
      = (Failure 500 PaymentServiceError,
         (world_of [nr_two\<lparr>stateCd := REFUND_REQUESTED\<rparr>])
           \<lparr>gateway_calls := [GetPayment ''tok-1'', RefundPayment ''tok-1'']\<rparr>)"
    by (simp add: patch_def access act found init valid dispatch handler patch_except_def)
  show ?thesis
    using run by (simp add: env0_def pay_def valid_states_def Payment_defs)
qed

text \<open>
  An action outside the enumeration is replaced by \<^verbatim>\<open>EDIT\<close> before the validation
  reads it, so the validation never sees an unknown action.
\<close>

lemma resolve_action_EDIT: "resolve_action ''EDIT'' = EDIT"
  by (simp add: resolve_action_def has_value_def NameRequestPatchActions_def upper_def
      upper_char_def Action_defs)

lemma unknown_action_is_edit:
  "\<not> has_value (upper a) \<Longrightarrow> patch env i a request_json w = patch env i ''EDIT'' request_json w"
  by (simp add: patch_def resolve_action_unknown resolve_action_EDIT)


text \<open>
  C8, on the code: the action \<^verbatim>\<open>foo\<close> is not a value of the enumeration, yet the
  request is not rejected; it is answered with status 200 after the edit handler ran.
\<close>

theorem unknown_action_runs_edit:
  "\<not> has_value (upper ''foo'')
   \<and> patch env0 1 ''foo'' (Some no_data) (world_of [nr0])
      = (Ok200 nr0, (world_of [nr0])\<lparr>events := [Event ''PATCH [edit]'' 1]\<rparr>)"
  by (simp add: patch_def resolve_action_def has_value_def NameRequestPatchActions_def upper_def
      upper_char_def Action_defs env0_def query_get_def world_of_def nr0_def initialize_def
      is_name_request_refundable_def validate_patch_request_def no_data_def State_defs
      handle_patch_actions_def handle_patch_edit_def update_nr_def handle_nr_patch_def
      save_to_db_def record_event_def Event_PATCH_def Let_def)

section \<open>Properties of the examiners' resource\<close>

lemma find_Some_mem: "find P rs = Some r \<Longrightarrow> r \<in> set rs \<and> P r"
  by (induction rs) (auto split: if_splits)

lemma ids_save_to_db [simp]:
  "map nr_id (requests (save_to_db x w)) = map nr_id (requests w)"
  by (simp add: save_to_db_def comp_def)

lemma pk_unique:
  "distinct (map nr_id rs) \<Longrightarrow> a \<in> set rs \<Longrightarrow> b \<in> set rs \<Longrightarrow> nr_id a = nr_id b \<Longrightarrow> a = b"
  by (auto simp: distinct_map dest: inj_onD)

lemma find_replaced:
  "i \<in> nr_id ` set rs \<Longrightarrow> nr_id m = i \<Longrightarrow>
   find (\<lambda>r. nr_id r = i) (map (\<lambda>x. if nr_id x = i then m else x) rs) = Some m"
  by (induction rs) auto

lemma query_get_saved:
  "i \<in> set (map nr_id (requests w)) \<Longrightarrow> nr_id m = i \<Longrightarrow> query_get i (save_to_db m w) = Some m"
  by (simp add: query_get_def save_to_db_def find_replaced)

lemma names_save_same:
  assumes "distinct (map nr_id (requests w))" and "e \<in> set (requests w)"
    and "nr_id e' = nr_id e" and "names e' = names e"
  shows "map names (requests (save_to_db e' w)) = map names (requests w)"
proof -
  have "names (if nr_id x = nr_id e' then e' else x) = names x" if "x \<in> set (requests w)" for x
    using pk_unique [OF assms(1) that assms(2)] assms(3,4) by auto
  then show ?thesis by (simp add: save_to_db_def)
qed

lemma demote_patch_fields [simp]:
  "nr_id (demote_patch e) = nr_id e" "names (demote_patch e) = names e"
  "furnished (demote_patch e) = furnished e" "expirationDate (demote_patch e) = expirationDate e"
  "nrNum (demote_patch e) = nrNum e" "request_action_cd (demote_patch e) = request_action_cd e"
  "requestTypeCd (demote_patch e) = requestTypeCd e"
  by (simp_all add: demote_patch_def)

lemma patch_state_ok:
  assumes pk: "distinct (map nr_id (requests w))"
    and mem: "nrd \<in> set (requests w)"
    and vs: "state \<in> set VALID_STATES"
    and vt: "valid_state_transition env nrd state"
    and cm: "\<not> comments_raise json_input"
    and ni: "state \<noteq> INPROGRESS"
  shows "\<exists>nrd3 w1. patch_state env start_state state nrd json_input w = Inr (nrd3, w1)
     \<and> nr_id nrd3 = nr_id nrd \<and> nrNum nrd3 = nrNum nrd \<and> stateCd nrd3 = state
     \<and> furnished nrd3 = furnished nrd \<and> expirationDate nrd3 = expirationDate nrd
     \<and> names nrd3 = names nrd
     \<and> request_action_cd nrd3 = request_action_cd nrd \<and> requestTypeCd nrd3 = requestTypeCd nrd
     \<and> map nr_id (requests w1) = map nr_id (requests w)
     \<and> map names (requests w1) = map names (requests w)"
proof (cases "get_inprogress (user_id env) w")
  case None
  then show ?thesis
    using vs vt cm ni by (simp add: patch_state_def Let_def)
next
  case (Some e)
  then have e: "e \<in> set (requests w)"
    by (auto simp: get_inprogress_def dest: find_Some_mem)
  have same: "nr_id e = nr_id nrd \<Longrightarrow> e = nrd"
    using pk_unique [OF pk e mem] by simp
  have nm: "map names (requests (save_to_db (demote_patch e) w)) = map names (requests w)"
    by (rule names_save_same [OF pk e]) simp_all
  show ?thesis
    using vs vt cm ni Some same nm by (auto simp: patch_state_def Let_def)
qed


lemma query_get_publish [simp]:
  "query_get i (publish_email_notification n k v w) = query_get i w"
  by (simp add: query_get_def publish_email_notification_def)

lemma requests_event_publish [simp]:
  "requests (record_event v m w) = requests w"
  "requests (publish_email_notification n k x w) = requests w"
  by (simp_all add: record_event_def publish_email_notification_def)

lemma decision_states:
  "state \<in> set [APPROVED, REJECTED, CONDITIONAL] \<Longrightarrow>
     state \<in> set VALID_STATES \<and> state \<noteq> INPROGRESS \<and> state \<noteq> CONSUMED \<and> state \<noteq> []"
  by (auto simp: VALID_STATES_def State_defs)

text \<open>
  C6. A PATCH that puts a name request into the state APPROVED, REJECTED or CONDITIONAL
  is answered with status 200 and persists the request in that state. When the request
  was not furnished (\<^verbatim>\<open>'N'\<close>) and had no expiration date, it is persisted furnished
  (\<^verbatim>\<open>'Y'\<close>) and with the expiration date computed for this call, which is not null.
  When it had an expiration date already, or was furnished, its expiration date and its
  furnished flag stay as they were, so repeating the transition changes neither.
\<close>

theorem decision_sets_expiration:
  assumes pk: "distinct (map nr_id (requests w))"
    and found: "find_by_nr (replace_pct20 nr) w = Some nrd"
    and state: "pj_state json_input = Some state"
    and dec: "state \<in> set [APPROVED, REJECTED, CONDITIONAL]"
    and vt: "valid_state_transition env nrd state"
    and cm: "\<not> comments_raise json_input"
  shows "\<exists>m w'. Request_patch env nr (Some json_input) w
        = (Message 200 (''Request:'' @ replace_pct20 nr @ '' - patched''), w')
     \<and> query_get (nr_id nrd) w' = Some m \<and> stateCd m = state
     \<and> (furnished nrd = ''N'' \<and> expirationDate nrd = None \<longrightarrow>
          furnished m = ''Y''
          \<and> expirationDate m = Some (create_expiry_date env (utcnow env)
               (get_expiry_days env (request_action_cd nrd) (requestTypeCd nrd))))
     \<and> (\<not> (furnished nrd = ''N'' \<and> expirationDate nrd = None) \<longrightarrow>
          expirationDate m = expirationDate nrd \<and> furnished m = furnished nrd)"
proof -
  note ds = decision_states [OF dec]
  have mem: "nrd \<in> set (requests w)"
    using found by (auto simp: find_by_nr_def dest: find_Some_mem)
  obtain nrd3 w1 where ps: "patch_state env (stateCd nrd) state nrd json_input w = Inr (nrd3, w1)"
    and f: "nr_id nrd3 = nr_id nrd" "stateCd nrd3 = state" "furnished nrd3 = furnished nrd"
      "expirationDate nrd3 = expirationDate nrd"
      "request_action_cd nrd3 = request_action_cd nrd" "requestTypeCd nrd3 = requestTypeCd nrd"
    and ids: "map nr_id (requests w1) = map nr_id (requests w)"
    using patch_state_ok [OF pk mem _ vt cm, of "stateCd nrd"] ds by blast
  define nrd2 where "nrd2 = (case pj_previousStateCd json_input of
      None \<Rightarrow> nrd3 | Some v \<Rightarrow> nrd3\<lparr>previousStateCd := v\<rparr>)"
  have f2: "nr_id nrd2 = nr_id nrd" "stateCd nrd2 = state" "furnished nrd2 = furnished nrd"
      "expirationDate nrd2 = expirationDate nrd"
      "request_action_cd nrd2 = request_action_cd nrd" "requestTypeCd nrd2 = requestTypeCd nrd"
    using f by (simp_all add: nrd2_def split: option.splits)
  define m where "m = update_expiration env nrd2"
  have idm: "nr_id m = nr_id nrd" "stateCd m = state"
    using f2 by (simp_all add: m_def update_expiration_def Let_def)
  have first: "furnished nrd = ''N'' \<and> expirationDate nrd = None \<longrightarrow>
      furnished m = ''Y''
      \<and> expirationDate m = Some (create_expiry_date env (utcnow env)
           (get_expiry_days env (request_action_cd nrd) (requestTypeCd nrd)))"
    using f2 dec by (auto simp: m_def update_expiration_def Let_def)
  have again: "\<not> (furnished nrd = ''N'' \<and> expirationDate nrd = None) \<longrightarrow>
      expirationDate m = expirationDate nrd \<and> furnished m = furnished nrd"
    using f2 by (auto simp: m_def update_expiration_def Let_def)
  have inw1: "nr_id nrd \<in> set (map nr_id (requests w1))"
    using mem ids by auto
  have stored: "query_get (nr_id nrd) (save_to_db m w1) = Some m"
    by (rule query_get_saved [OF inw1 idm(1)])
  have run: "Request_patch env nr (Some json_input) w
      = (Message 200 (''Request:'' @ replace_pct20 nr @ '' - patched''),
         publish_email_notification (nrNum m) state None
           (record_event Event_PATCH m (save_to_db m w1)))"
    using found state ds dec
    by (auto simp: Request_patch_def truthy_def ps nrd2_def [symmetric] m_def [symmetric] Let_def)
  show ?thesis
    using run stored idm first again by simp
qed


definition staff0 :: staff_env where
  "staff0 = \<lparr>user_id = 5, valid_state_transition = (\<lambda>nrd state. True), utcnow = 2000,
     get_expiry_days = (\<lambda>action type. 56),
     create_expiry_date = (\<lambda>start days. start + days)\<rparr>"

definition state_json :: "string \<Rightarrow> patch_json" where
  "state_json s = \<lparr>pj_state = Some s, pj_previousStateCd = None, pj_corpNum = None,
     pj_comments = None\<rparr>"

definition nr_other :: request where
  "nr_other = nr0\<lparr>nr_id := 2, nrNum := ''NR 0000002'', stateCd := INPROGRESS,
     previousStateCd := Some DRAFT, userId := 5\<rparr>"

definition nr_decided :: request where
  "nr_decided = nr0\<lparr>stateCd := APPROVED, furnished := ''Y'', expirationDate := Some 2056\<rparr>"

lemma examples_simps:
  "nr_id nr0 = 1" "nr_id nr_other = 2" "nr_id nr_decided = 1"
  "nrNum nr0 = ''NR 0000001''" "nrNum nr_other = ''NR 0000002''" "nrNum nr_decided = ''NR 0000001''"
  "replace_pct20 ''NR%200000001'' = ''NR 0000001''"
  "requests (world_of rs) = rs"
  by (simp_all add: nr0_def nr_other_def nr_decided_def world_of_def)

theorem decision_sets_expiration_witness:
  "(\<exists>m w'. Request_patch staff0 ''NR%200000001'' (Some (state_json APPROVED))
               (world_of [nr0, nr_other])
             = (Message 200 ''Request:NR 0000001 - patched'', w')
        \<and> query_get 1 w' = Some m \<and> stateCd m = APPROVED
        \<and> furnished m = ''Y'' \<and> expirationDate m = Some 2056)
   \<and> (\<exists>m w'. Request_patch staff0 ''NR%200000001'' (Some (state_json APPROVED))
               (world_of [nr_decided, nr_other])
             = (Message 200 ''Request:NR 0000001 - patched'', w')
        \<and> query_get 1 w' = Some m \<and> stateCd m = APPROVED
        \<and> furnished m = ''Y'' \<and> expirationDate m = Some 2056)"
proof -
  have pk: "distinct (map nr_id (requests (world_of [nr0, nr_other])))"
    "distinct (map nr_id (requests (world_of [nr_decided, nr_other])))"
    by (simp_all add: examples_simps)
  have found: "find_by_nr (replace_pct20 ''NR%200000001'') (world_of [nr0, nr_other]) = Some nr0"
    "find_by_nr (replace_pct20 ''NR%200000001'') (world_of [nr_decided, nr_other]) = Some nr_decided"
    by (simp_all add: find_by_nr_def examples_simps)
  have state: "pj_state (state_json APPROVED) = Some APPROVED"
    by (simp add: state_json_def)
  have dec: "APPROVED \<in> set [APPROVED, REJECTED, CONDITIONAL]" by simp
  have vt: "valid_state_transition staff0 nr0 APPROVED"
    "valid_state_transition staff0 nr_decided APPROVED"
    by (simp_all add: staff0_def)
  have cm: "\<not> comments_raise (state_json APPROVED)"
    by (simp add: comments_raise_def state_json_def)
  have vals: "furnished nr0 = ''N'' \<and> expirationDate nr0 = None"
    "\<not> (furnished nr_decided = ''N'' \<and> expirationDate nr_decided = None)"
    "expirationDate nr_decided = Some 2056" "furnished nr_decided = ''Y''"
    "create_expiry_date staff0 (utcnow staff0)
       (get_expiry_days staff0 (request_action_cd nr0) (requestTypeCd nr0)) = 2056"
    by (simp_all add: nr0_def nr_decided_def staff0_def)
  have a: "\<exists>m w'. Request_patch staff0 ''NR%200000001'' (Some (state_json APPROVED))
               (world_of [nr0, nr_other])
             = (Message 200 ''Request:NR 0000001 - patched'', w')
        \<and> query_get 1 w' = Some m \<and> stateCd m = APPROVED
        \<and> furnished m = ''Y'' \<and> expirationDate m = Some 2056"
    using decision_sets_expiration [OF pk(1) found(1) state dec vt(1) cm] vals
    by (auto simp: examples_simps)
  have b: "\<exists>m w'. Request_patch staff0 ''NR%200000001'' (Some (state_json APPROVED))
               (world_of [nr_decided, nr_other])
             = (Message 200 ''Request:NR 0000001 - patched'', w')
        \<and> query_get 1 w' = Some m \<and> stateCd m = APPROVED
        \<and> furnished m = ''Y'' \<and> expirationDate m = Some 2056"
    using decision_sets_expiration [OF pk(2) found(2) state dec vt(2) cm] vals
    by (auto simp: examples_simps)
  show ?thesis using a b by blast
qed




definition nm :: "nat \<Rightarrow> string \<Rightarrow> string \<Rightarrow> name_choice" where
  "nm c t s = \<lparr>choice = c, name_text = t, name_state = s, consumptionDate = None,
     name_corpNum = None\<rparr>"





section \<open>Properties of the payment societies resource\<close>

text \<open>
  C10. A POST of a payment society record for an existing name request is answered with
  status 200 and appends the record to the payment societies. The request is persisted
  in state DRAFT when it was in state PENDING\_PAYMENT, and in its own state otherwise.
  \<^verbatim>\<open>add_new_nr_number\<close> is taken to keep the id and the state of the request.
\<close>

theorem payment_society_post:
  assumes found: "find_by_nr nr_num w = Some nrd0"
    and body: "sj_nrNum json_input = Some nr_num" "nr_num \<noteq> []"
    and helper: "nr_id (add_new_nr_number nrd0) = nr_id nrd0"
      "stateCd (add_new_nr_number nrd0) = stateCd nrd0"
  shows "\<exists>ps m w'. PaymentSocieties_post add_new_nr_number (Some json_input) w
        = (Ok200_payment_society ps, w')
     \<and> payment_societies w' = payment_societies w @ [ps]
     \<and> ps_nrNum ps = nrNum (add_new_nr_number nrd0)
     \<and> query_get (nr_id nrd0) w' = Some m
     \<and> stateCd m = (if stateCd nrd0 = PENDING_PAYMENT then DRAFT else stateCd nrd0)"
proof -
  define nrd where "nrd = add_new_nr_number nrd0"
  define m where "m = (if stateCd nrd = PENDING_PAYMENT then nrd\<lparr>stateCd := ''DRAFT''\<rparr> else nrd)"
  have idm: "nr_id m = nr_id nrd0"
    using helper by (simp add: m_def nrd_def)
  have st: "stateCd m = (if stateCd nrd0 = PENDING_PAYMENT then DRAFT else stateCd nrd0)"
    using helper by (simp add: m_def nrd_def DRAFT_def)
  have "nrd0 \<in> set (requests w)"
    using found by (auto simp: find_by_nr_def dest: find_Some_mem)
  then have mem: "nr_id nrd0 \<in> nr_id ` set (requests w)"
    by (rule imageI)
  define ps where "ps =
     \<lparr>ps_nrNum = nrNum nrd,
      ps_corpNum = sj_corpNum json_input,
      ps_paymentCompletionDate = sj_paymentCompletionDate json_input,
      ps_paymentStatusCode = sj_paymentStatusCode json_input,
      ps_paymentFeeCode = sj_paymentFeeCode json_input,
      ps_paymentType = sj_paymentType json_input,
      ps_paymentAmount = sj_paymentAmount json_input,
      ps_paymentJson = sj_paymentJson json_input,
      ps_paymentAction = sj_paymentAction json_input\<rparr>"
  define w1 where "w1 = w\<lparr>payment_societies := payment_societies w @ [ps]\<rparr>"
  have mem1: "nr_id nrd0 \<in> set (map nr_id (requests w1))"
    using mem by (simp add: w1_def)
  have stored: "query_get (nr_id nrd0) (save_to_db m w1) = Some m"
    by (rule query_get_saved [OF mem1 idm])
  have run: "PaymentSocieties_post add_new_nr_number (Some json_input) w
      = (Ok200_payment_society ps, save_to_db m w1)"
    using found body
    by (simp add: PaymentSocieties_post_def truthy_def nrd_def [symmetric] ps_def [symmetric]
        w1_def [symmetric] m_def [symmetric] Let_def)
  have rest: "payment_societies (save_to_db m w1) = payment_societies w @ [ps]"
    "ps_nrNum ps = nrNum (add_new_nr_number nrd0)"
    by (simp_all add: save_to_db_def w1_def ps_def nrd_def)
  show ?thesis
    using run stored st rest by blast
qed

definition society_json :: "string \<Rightarrow> payment_society_json" where
  "society_json n = \<lparr>sj_nrNum = Some n, sj_corpNum = Some ''S0001'',
     sj_paymentCompletionDate = None, sj_paymentStatusCode = Some ''COMPLETED'',
     sj_paymentFeeCode = None, sj_paymentType = None, sj_paymentAmount = Some 3000,
     sj_paymentJson = None, sj_paymentAction = None\<rparr>"

definition nr_pending :: request where
  "nr_pending = nr0\<lparr>stateCd := PENDING_PAYMENT\<rparr>"

theorem payment_society_post_witness:
  "(\<exists>ps m w'. PaymentSocieties_post (\<lambda>r. r) (Some (society_json ''NR 0000001''))
        (world_of [nr_pending, nr_other]) = (Ok200_payment_society ps, w')
      \<and> payment_societies w' = [ps] \<and> ps_nrNum ps = ''NR 0000001''
      \<and> query_get 1 w' = Some m \<and> stateCd m = DRAFT)
   \<and> (\<exists>ps m w'. PaymentSocieties_post (\<lambda>r. r) (Some (society_json ''NR 0000002''))
        (world_of [nr_pending, nr_other]) = (Ok200_payment_society ps, w')
      \<and> payment_societies w' = [ps] \<and> ps_nrNum ps = ''NR 0000002''
      \<and> query_get 2 w' = Some m \<and> stateCd m = INPROGRESS)"
proof -
  let ?w = "world_of [nr_pending, nr_other]"
  have found: "find_by_nr ''NR 0000001'' ?w = Some nr_pending"
    "find_by_nr ''NR 0000002'' ?w = Some nr_other"
    by (simp_all add: find_by_nr_def world_of_def nr_pending_def nr_other_def nr0_def)
  have body: "sj_nrNum (society_json n) = Some n" for n
    by (simp add: society_json_def)
  have vals: "payment_societies ?w = []" "nr_id nr_pending = 1" "nr_id nr_other = 2"
    "nrNum nr_pending = ''NR 0000001''" "nrNum nr_other = ''NR 0000002''"
    "stateCd nr_pending = PENDING_PAYMENT" "stateCd nr_other = INPROGRESS"
    "INPROGRESS \<noteq> PENDING_PAYMENT"
    by (simp_all add: world_of_def nr_pending_def nr_other_def nr0_def State_defs)
  show ?thesis
    using payment_society_post [OF found(1) body, of "\<lambda>r. r"]
      payment_society_post [OF found(2) body, of "\<lambda>r. r"]
    by (simp add: vals)
qed

section \<open>The demotion of the other request in \<^verbatim>\<open>Request.put\<close>\<close>

definition put0 :: put_json where
  "put0 = \<lparr>uj_nrNum = None, uj_state = Some DRAFT,
     uj_names = Some [\<lparr>nj_name = Some (Some ''ACME''), nj_choice = Some 1\<rparr>]\<rparr>"

text \<open>
  C9, on the code: the user owns another request in state INPROGRESS whose previous state
  is DRAFT. The PUT sets that request to HOLD; the PATCH would set it back to DRAFT.
\<close>

theorem put_demotes_to_hold:
  "get_inprogress (user_id staff0) (world_of [nr0, nr_other]) = Some nr_other
   \<and> previousStateCd nr_other = Some DRAFT
   \<and> Request_put_begin staff0 ''NR 0000001'' (Some put0) (world_of [nr0, nr_other])
       = Inr (world_of [nr0, nr_other\<lparr>stateCd := HOLD\<rparr>])
   \<and> demote_patch nr_other = nr_other\<lparr>stateCd := DRAFT, previousStateCd := None\<rparr>"
  by (simp add: Request_put_begin_def get_inprogress_def staff0_def world_of_def nr0_def
      nr_other_def put0_def truthy_def VALID_STATES_def find_by_nr_def name_choice_exists_def
      names_raise_def dict_get_def
      save_to_db_def demote_patch_def State_defs)

end
